theory Spec2Isabelle
  imports Complex_Main
begin

section \<open>Strings and JSON values\<close>

text \<open>
  A JavaScript string is modelled as a \<^typ>\<open>string\<close>, one \<^typ>\<open>char\<close> per code unit
  (the code units up to 255). \<open>String.prototype.trim\<close> removes white space and line
  terminators from both ends; in this range they are TAB, LF, VT, FF, CR, SPACE and
  NBSP.
\<close>

definition is_space :: "char \<Rightarrow> bool" where
  "is_space c \<longleftrightarrow>
     c \<in> set [CHR 0x09, CHR 0x0A, CHR 0x0B, CHR 0x0C, CHR 0x0D, CHR 0x20, CHR 0xA0]"

definition trim :: "string \<Rightarrow> string" where
  "trim s = rev (dropWhile is_space (rev (dropWhile is_space s)))"

text \<open>
  The value \<open>request.json()\<close> yields. An object keeps its members in source order;
  \<open>JSON.parse\<close> lets a later duplicate key overwrite an earlier one.
\<close>

datatype json =
    JNull
  | JBool bool
  | JNum rat
  | JStr string
  | JArr "json list"
  | JObj "(string \<times> json) list"

text \<open>
  Property access \<open>v.k\<close> (and \<open>v?.k\<close>): \<open>None\<close> is \<open>undefined\<close>. Only an object
  has the members read here (\<open>prompt\<close>, \<open>history\<close>, \<open>role\<close>, \<open>content\<close>); on \<open>null\<close>
  the optional chain \<open>payload?.k\<close> gives \<open>undefined\<close> too, and the filter callback reads
  \<open>message.k\<close> only behind \<open>message &&\<close>.
\<close>

fun property :: "string \<Rightarrow> json \<Rightarrow> json option" where
  "property k (JObj kvs) = map_of (rev kvs) k"
| "property k v = None"

text \<open>JavaScript truthiness of a JSON value.\<close>

fun truthy :: "json \<Rightarrow> bool" where
  "truthy JNull = False"
| "truthy (JBool b) = b"
| "truthy (JNum n) = (n \<noteq> 0)"
| "truthy (JStr s) = (s \<noteq> [])"
| "truthy (JArr vs) = True"
| "truthy (JObj kvs) = True"

text \<open>\<open>typeof v === "string"\<close> and \<open>Array.isArray(v)\<close> of a possibly undefined value.\<close>

fun typeof_string :: "json option \<Rightarrow> bool" where
  "typeof_string (Some (JStr s)) = True"
| "typeof_string v = False"

fun isArray :: "json option \<Rightarrow> bool" where
  "isArray (Some (JArr vs)) = True"
| "isArray v = False"

text \<open>
  The string a value is known to be once \<open>typeof\<close> has said so, and the elements of a
  value once \<open>Array.isArray\<close> has; the other cases are never read by the code.
\<close>

fun the_string :: "json option \<Rightarrow> string" where
  "the_string (Some (JStr s)) = s"
| "the_string v = []"

fun the_array :: "json option \<Rightarrow> json list" where
  "the_array (Some (JArr vs)) = vs"
| "the_array v = []"

section \<open>The completion relay: \<open>src/app/api/chat/route.ts\<close>\<close>

text \<open>\<open>type ClientMessage = { role, content }\<close>; at run time both members are strings.\<close>

record ClientMessage =
  role :: string
  content :: string

definition SYSTEM_PROMPT :: string where
  "SYSTEM_PROMPT =
     ''You are VoiceSphere, an upbeat AI assistant inspired by Siri.'' @ [CHR 0x0A] @
     ''- Speak concisely and clearly.'' @ [CHR 0x0A] @
     ''- Reference the user's context when helpful.'' @ [CHR 0x0A] @
     ''- Offer actionable next steps when the user asks for help.'' @ [CHR 0x0A] @
     ''- Keep the conversation friendly yet professional.'' @ [CHR 0x0A] @
     ''- If you are unsure, say so transparently and suggest an alternative.''"

text \<open>The argument of \<open>openai.chat.completions.create\<close>.\<close>

record chat_request =
  req_model :: string
  req_temperature :: rat
  req_max_tokens :: nat
  req_messages :: "ClientMessage list"

text \<open>
  What the upstream call does: it throws, or it returns a completion with its list of
  choices. A choice is read through \<open>choices[0]?.message?.content\<close>: the outer option is
  the choice's \<open>message\<close>, the inner one its \<open>content\<close> (a string or \<open>null\<close>).
\<close>

type_synonym choice = "string option option"

datatype upstream_result = Throws | Completion "choice list"

text \<open>The body and status of a \<open>NextResponse.json\<close>: \<open>{ reply }\<close> or \<open>{ error }\<close>.\<close>

datatype response_body = Reply string | Error string

record response =
  status :: nat
  body :: response_body

text \<open>The filter callback and the map callback over \<open>history\<close>.\<close>

definition history_filter :: "json \<Rightarrow> bool" where
  "history_filter message \<longleftrightarrow>
     truthy message \<and>
     typeof_string (property ''content'' message) \<and>
     (property ''role'' message = Some (JStr ''assistant'') \<or>
      property ''role'' message = Some (JStr ''user''))"

definition history_map :: "json \<Rightarrow> ClientMessage" where
  "history_map message =
     \<lparr>role = the_string (property ''role'' message),
      content = the_string (property ''content'' message)\<rparr>"

text \<open>The local \<open>messages\<close> of \<open>POST\<close>, and the request built from it.\<close>

definition outgoing_messages :: "string \<Rightarrow> json list \<Rightarrow> ClientMessage list" where
  "outgoing_messages prompt history =
     [\<lparr>role = ''system'', content = SYSTEM_PROMPT\<rparr>] @
     map history_map (filter history_filter history) @
     [\<lparr>role = ''user'', content = prompt\<rparr>]"

definition completion_request :: "string \<Rightarrow> json list \<Rightarrow> chat_request" where
  "completion_request prompt history =
     \<lparr>req_model = ''gpt-4o-mini'', req_temperature = 7 / 10, req_max_tokens = 480,
      req_messages = outgoing_messages prompt history\<rparr>"

text \<open>\<open>completion.choices[0]?.message?.content?.trim()\<close>: \<open>None\<close> is \<open>undefined\<close>.\<close>

fun first_reply :: "choice list \<Rightarrow> string option" where
  "first_reply [] = None"
| "first_reply (None # cs) = None"
| "first_reply (Some None # cs) = None"
| "first_reply (Some (Some text) # cs) = Some (trim text)"

text \<open>The locals \<open>prompt\<close> and \<open>history\<close> read from the payload.\<close>

definition payload_prompt :: "json \<Rightarrow> string" where
  "payload_prompt payload =
     (if typeof_string (property ''prompt'' payload)
      then trim (the_string (property ''prompt'' payload)) else [])"

definition payload_history :: "json \<Rightarrow> json list" where
  "payload_history payload =
     (if isArray (property ''history'' payload)
      then the_array (property ''history'' payload) else [])"

text \<open>
  The handler. \<open>apiKey\<close> is \<open>process.env.OPENAI_API_KEY\<close> (\<open>None\<close> when unset; unset and
  empty are both falsy). \<open>parsed\<close> is the outcome of \<open>request.json()\<close>: \<open>None\<close> when it
  throws. \<open>create\<close> is the upstream call. The result is the list of requests sent
  upstream together with the response; every throw inside the \<open>try\<close> ends in the
  \<open>catch\<close> branch.
\<close>

definition POST ::
  "string option \<Rightarrow> json option \<Rightarrow> (chat_request \<Rightarrow> upstream_result) \<Rightarrow>
   chat_request list \<times> response" where
  "POST apiKey parsed create =
     (if apiKey = None \<or> apiKey = Some [] then
        ([], \<lparr>status = 500,
               body = Error ''The assistant is not configured. Set OPENAI_API_KEY.''\<rparr>)
      else
        (case parsed of
           None \<Rightarrow> ([], \<lparr>status = 500, body = Error ''Failed to process that request.''\<rparr>)
         | Some payload \<Rightarrow>
             (let prompt = payload_prompt payload;
                  history = payload_history payload
              in if prompt = [] then
                   ([], \<lparr>status = 400, body = Error ''Please provide a prompt.''\<rparr>)
                 else
                   (let request = completion_request prompt history
                    in case create request of
                         Throws \<Rightarrow>
                           ([request],
                            \<lparr>status = 500, body = Error ''Failed to process that request.''\<rparr>)
                       | Completion choices \<Rightarrow>
                           (case first_reply choices of
                              None \<Rightarrow>
                                ([request],
                                 \<lparr>status = 500,
                                  body = Error ''The assistant could not craft a reply.''\<rparr>)
                            | Some reply \<Rightarrow>
                                if reply = [] then
                                  ([request],
                                   \<lparr>status = 500,
                                    body = Error ''The assistant could not craft a reply.''\<rparr>)
                                else ([request], \<lparr>status = 200, body = Reply reply\<rparr>))))))"

text \<open>
  The history part of the message list in the spec's words: each history entry whose
  role is \<open>user\<close> or \<open>assistant\<close> and whose content is a string, in the original
  order, every other entry dropped.
\<close>

fun spec_history_turns :: "json list \<Rightarrow> ClientMessage list" where
  "spec_history_turns [] = []"
| "spec_history_turns (JObj kvs # rest) =
     (case (map_of (rev kvs) ''role'', map_of (rev kvs) ''content'') of
        (Some (JStr r), Some (JStr c)) \<Rightarrow>
          if r = ''user'' \<or> r = ''assistant''
          then \<lparr>role = r, content = c\<rparr> # spec_history_turns rest
          else spec_history_turns rest
      | _ \<Rightarrow> spec_history_turns rest)"
| "spec_history_turns (v # rest) = spec_history_turns rest"

section \<open>The session controller: \<open>src/app/components/VoiceAssistant.tsx\<close>\<close>

text \<open>\<open>interface Message { role, content, timestamp }\<close>.\<close>

record Message = ClientMessage +
  timestamp :: nat

definition RECOGNITION_ERROR :: string where
  "RECOGNITION_ERROR =
     ''Speech recognition is unavailable. Please use a Chromium-based browser.''"

text \<open>
  How the awaited part of one \<open>submitQuery\<close> call ends (\<open>await fetch\<close>, then
  \<open>await response.text()\<close> or \<open>await response.json()\<close>; the call changes no state
  between these awaits, so they are one step here):
  \<^item> \<open>Ok reply\<close>: \<open>response.ok\<close> and the body parsed to \<open>{ reply }\<close>;
  \<^item> \<open>NotOk errorText\<close>: \<open>!response.ok\<close>, with the text of the body;
  \<^item> \<open>RejectedError message\<close>: a promise rejected with an \<open>Error\<close> instance (a network
    failure, a body that is not JSON, the \<open>AbortError\<close> of an aborted signal);
  \<^item> \<open>RejectedOther\<close>: a rejection with a value that is not an \<open>Error\<close>.
\<close>

datatype fetch_outcome =
    Ok string
  | NotOk string
  | RejectedError string
  | RejectedOther

text \<open>
  A \<open>submitQuery\<close> call suspended at its \<open>await\<close>: the \<open>AbortController\<close> whose signal
  the request carries, and the JSON body of the request.
\<close>

record fetch_call =
  signal :: nat
  request_body :: json

text \<open>
  The component's state: the five \<open>useState\<close> cells, the two refs, and the browser
  objects the handlers act on. An \<open>AbortController\<close> is a number; \<open>aborted\<close> holds the
  controllers whose \<open>abort()\<close> has been called and \<open>nextController\<close> is the next fresh
  one. \<open>inflight\<close> are the suspended \<open>submitQuery\<close> calls. \<open>speechSynthesis\<close> is the
  utterance queue of \<open>window.speechSynthesis\<close>, \<open>None\<close> where the browser has none.
  \<open>recognitionRef\<close> tells whether \<open>recognitionRef.current\<close> holds a recognition object.
\<close>

record state =
  messages :: "Message list"
  isListening :: bool
  recognitionError :: "string option"
  pendingText :: string
  isProcessing :: bool
  recognitionRef :: bool
  controllerRef :: "nat option"
  aborted :: "nat set"
  nextController :: nat
  inflight :: "fetch_call list"
  speechSynthesis :: "string list option"
  speechAvailable :: bool

text \<open>
  The state after the first render and its effect: the \<open>useState\<close> initial values;
  the effect sets the diagnostic where recognition is unavailable and stores the
  recognition object otherwise.
\<close>

definition mounted :: "bool \<Rightarrow> string list option \<Rightarrow> state" where
  "mounted available synth =
     \<lparr>messages = [], isListening = False,
      recognitionError = (if available then None else Some RECOGNITION_ERROR),
      pendingText = [], isProcessing = False,
      recognitionRef = available, controllerRef = None, aborted = {},
      nextController = 0, inflight = [],
      speechSynthesis = synth, speechAvailable = available\<rparr>"

text \<open>The spec's session state, read off the two flags.\<close>

datatype session = Idle | Listening | Processing

definition session_state :: "state \<Rightarrow> session" where
  "session_state s =
     (if isListening s then Listening else if isProcessing s then Processing else Idle)"

text \<open>\<open>speakText\<close>: \<open>synth.cancel()\<close> empties the queue, \<open>synth.speak\<close> adds the utterance.\<close>

definition speakText :: "string \<Rightarrow> state \<Rightarrow> state" where
  "speakText text s =
     (case speechSynthesis s of
        None \<Rightarrow> s
      | Some queue \<Rightarrow> s\<lparr>speechSynthesis := Some [text]\<rparr>)"

text \<open>\<open>controllerRef.current?.abort()\<close>.\<close>

definition abort_current :: "state \<Rightarrow> state" where
  "abort_current s =
     (case controllerRef s of
        None \<Rightarrow> s
      | Some c \<Rightarrow> s\<lparr>aborted := insert c (aborted s)\<rparr>)"

text \<open>The body of the \<open>fetch\<close> request: \<open>JSON.stringify({ prompt, history })\<close>.\<close>

definition fetch_body :: "string \<Rightarrow> Message list \<Rightarrow> json" where
  "fetch_body prompt history =
     JObj [(''prompt'', JStr prompt),
           (''history'',
            JArr (map (\<lambda>message. JObj [(''role'', JStr (role message)),
                                        (''content'', JStr (content message))])
                      history))]"

text \<open>
  \<open>submitQuery\<close> up to its first \<open>await\<close>. \<open>closure_messages\<close> is the \<open>messages\<close>
  binding of the render that created the callback (the history sent is read from it,
  while \<open>setMessages\<close> updates the current transcript); \<open>now\<close> is \<open>Date.now()\<close>.
\<close>

definition submitQuery :: "Message list \<Rightarrow> nat \<Rightarrow> string \<Rightarrow> state \<Rightarrow> state" where
  "submitQuery closure_messages now text s =
     (let s1 = s\<lparr>isProcessing := True\<rparr>;
          userMessage = \<lparr>role = ''user'', content = text, timestamp = now\<rparr>;
          s2 = s1\<lparr>messages := messages s1 @ [userMessage]\<rparr>;
          s3 = abort_current s2;
          controller = nextController s3;
          s4 = s3\<lparr>nextController := Suc controller, controllerRef := Some controller\<rparr>
      in s4\<lparr>inflight := inflight s4 @
               [\<lparr>signal = controller, request_body = fetch_body text closure_messages\<rparr>]\<rparr>)"

text \<open>The content of the assistant message the \<open>try\<close> or the \<open>catch\<close> block builds.\<close>

fun assistant_content :: "fetch_outcome \<Rightarrow> string" where
  "assistant_content (Ok reply) = reply"
| "assistant_content (NotOk errorText) =
     ''I ran into a problem: '' @
     (if errorText = [] then ''Something went wrong'' else errorText)"
| "assistant_content (RejectedError message) = ''I ran into a problem: '' @ message"
| "assistant_content RejectedOther = ''I ran into an unexpected problem processing that.''"

text \<open>
  The rest of \<open>submitQuery\<close>, run when the awaited request of the call with signal
  \<open>controller\<close> settles with \<open>outcome\<close>: the \<open>try\<close> block appends the reply and speaks
  it, the \<open>catch\<close> block appends the templated message, \<open>finally\<close> clears
  \<open>isProcessing\<close>. Nothing here reads \<open>controllerRef\<close> or the signal. A call that is
  not suspended has no continuation to run.
\<close>

definition submitQuery_resume :: "nat \<Rightarrow> fetch_outcome \<Rightarrow> nat \<Rightarrow> state \<Rightarrow> state" where
  "submitQuery_resume controller outcome now s =
     (if controller \<in> signal ` set (inflight s) then
        (let s1 = s\<lparr>inflight := filter (\<lambda>call. signal call \<noteq> controller) (inflight s)\<rparr>;
             assistantMessage =
               \<lparr>role = ''assistant'', content = assistant_content outcome, timestamp = now\<rparr>;
             s2 = s1\<lparr>messages := messages s1 @ [assistantMessage]\<rparr>;
             s3 = (case outcome of Ok reply \<Rightarrow> speakText reply s2 | _ \<Rightarrow> s2)
         in s3\<lparr>isProcessing := False\<rparr>)
      else s)"

text \<open>
  \<open>handleSubmit\<close>: \<open>field\<close> is \<open>formData.get("prompt")\<close>, \<open>None\<close> for \<open>null\<close>. The input
  is rendered with \<open>disabled={isProcessing}\<close> and a disabled control is left out of the
  form data, so the field is \<open>null\<close> exactly while \<open>isProcessing\<close> holds; then \<open>.trim()\<close>
  throws before anything is submitted and the state stays as it is. The callback is
  re-created whenever \<open>messages\<close> changes, so its \<open>submitQuery\<close> closes over the current
  transcript.
\<close>

definition handleSubmit :: "string option \<Rightarrow> nat \<Rightarrow> state \<Rightarrow> state" where
  "handleSubmit field now s =
     (case field of
        None \<Rightarrow> s
      | Some raw \<Rightarrow>
          (let text = trim raw
           in if text = [] then s else submitQuery (messages s) now text s))"

text \<open>\<open>handleReset\<close>.\<close>

definition handleReset :: "state \<Rightarrow> state" where
  "handleReset s =
     (let s1 = abort_current s;
          s2 = s1\<lparr>messages := [], pendingText := [], isProcessing := False\<rparr>
      in case speechSynthesis s2 of
           None \<Rightarrow> s2
         | Some queue \<Rightarrow> s2\<lparr>speechSynthesis := Some []\<rparr>)"

text \<open>
  \<open>recognition.onresult\<close>: \<open>results\<close> holds, for each result of the event, the
  transcript of its first alternative.
\<close>

definition recognition_onresult :: "nat \<Rightarrow> string list \<Rightarrow> state \<Rightarrow> state" where
  "recognition_onresult resultIndex results s =
     s\<lparr>pendingText := trim (concat (drop resultIndex results))\<rparr>"

text \<open>
  \<open>recognition.onend\<close>, as a function of the two bindings its closure reads:
  \<open>closure_pendingText\<close> and the \<open>messages\<close> inside its \<open>submitQuery\<close>.
\<close>

definition recognition_onend :: "string \<Rightarrow> Message list \<Rightarrow> nat \<Rightarrow> state \<Rightarrow> state" where
  "recognition_onend closure_pendingText closure_messages now s =
     (let s1 = s\<lparr>isListening := False\<rparr>
      in if trim closure_pendingText = [] then s1
         else (submitQuery closure_messages now (trim closure_pendingText) s1)
                \<lparr>pendingText := []\<rparr>)"

text \<open>
  The handler the component installs. The effect that assigns \<open>recognition.onend\<close> has
  the dependency list \<open>[speechAvailable]\<close> (the lint warning about the missing
  dependencies is switched off on the line before), and \<open>speechAvailable\<close> is a
  \<open>useMemo\<close> with no dependencies, so the effect runs once, after the first render.
  The handler therefore closes over that render's bindings for good: \<open>pendingText\<close> is
  the initial \<open>""\<close> and \<open>submitQuery\<close> is the one whose \<open>messages\<close> is the initial
  \<open>[]\<close>, the values the state cells have in \<open>mounted\<close>. The state setters it calls
  act on the current state.
\<close>

definition installed_onend :: "nat \<Rightarrow> state \<Rightarrow> state" where
  "installed_onend now s =
     (let first_render = mounted (speechAvailable s) (speechSynthesis s)
      in recognition_onend (pendingText first_render) (messages first_render) now s)"

text \<open>\<open>recognition.onerror\<close>: \<open>code\<close> is \<open>event.error\<close>.\<close>

definition recognition_onerror :: "string \<Rightarrow> state \<Rightarrow> state" where
  "recognition_onerror code s =
     s\<lparr>isListening := False,
       recognitionError :=
         Some (if code = ''not-allowed''
               then ''Microphone access denied. Please enable it in your browser.''
               else ''Recognition error: '' @ code)\<rparr>"

text \<open>
  \<open>handleMicPress\<close>. \<open>recognition.start()\<close> returns or throws; the environment decides
  which.
\<close>

datatype start_outcome = Started | StartThrewError string | StartThrewOther

definition handleMicPress :: "start_outcome \<Rightarrow> state \<Rightarrow> state" where
  "handleMicPress start s =
     (if \<not> speechAvailable s then s\<lparr>recognitionError := Some RECOGNITION_ERROR\<rparr>
      else if \<not> recognitionRef s then s
      else if isListening s then s\<lparr>isListening := False\<rparr>
      else
        (let s1 = s\<lparr>recognitionError := None, pendingText := []\<rparr>
         in case start of
              Started \<Rightarrow> s1\<lparr>isListening := True\<rparr>
            | StartThrewError message \<Rightarrow> s1\<lparr>recognitionError := Some message\<rparr>
            | StartThrewOther \<Rightarrow> s1\<lparr>recognitionError := Some ''Unable to access microphone''\<rparr>))"

section \<open>Runs of the session controller\<close>

text \<open>
  The events the single-threaded event loop delivers to the component, one at a time:
  a form submission, the settling of a suspended call's request, a click on reset or
  on the microphone button, and the three recognition callbacks. A run starts from
  the mounted component. \<open>step\<close> runs the handler of an event in any state; which
  events the rendered page can deliver in a state is \<open>deliverable\<close> below.
\<close>

datatype event =
    Submit "string option" nat
  | Settle nat fetch_outcome nat
  | Reset
  | MicPress start_outcome
  | Result nat "string list"
  | End nat
  | RecognitionError string

fun step :: "event \<Rightarrow> state \<Rightarrow> state" where
  "step (Submit field now) s = handleSubmit field now s"
| "step (Settle controller outcome now) s = submitQuery_resume controller outcome now s"
| "step Reset s = handleReset s"
| "step (MicPress start) s = handleMicPress start s"
| "step (Result resultIndex results) s = recognition_onresult resultIndex results s"
| "step (End now) s = installed_onend now s"
| "step (RecognitionError code) s = recognition_onerror code s"

fun run :: "event list \<Rightarrow> state \<Rightarrow> state" where
  "run [] s = s"
| "run (e # es) s = run es (step e s)"

text \<open>
  The events the browser can deliver to the rendered component in a state.
  \<^item> \<open>abort()\<close> rejects the promise of the aborted request at once, and the rejection is
    handled before the next task: while an aborted call is still suspended, the only
    event is the settling of that call, and it is a rejection with the \<open>AbortError\<close>
    (an \<open>Error\<close> instance).
  \<^item> A submission carries the prompt field exactly when the form is enabled, that is,
    when \<open>isProcessing\<close> is false.
  \<^item> The reset button is rendered with \<open>disabled={!messages.length && !pendingText}\<close>.
  \<^item> The recognition callbacks need the recognition object.
  \<^item> A call that is not suspended does not settle.
\<close>

definition settled :: "state \<Rightarrow> bool" where
  "settled s \<longleftrightarrow> filter (\<lambda>call. signal call \<in> aborted s) (inflight s) = []"

fun is_rejection :: "fetch_outcome \<Rightarrow> bool" where
  "is_rejection (RejectedError message) = True"
| "is_rejection outcome = False"

fun deliverable :: "event \<Rightarrow> state \<Rightarrow> bool" where
  "deliverable (Submit field now) s = (settled s \<and> (field = None) = isProcessing s)"
| "deliverable (Settle controller outcome now) s =
     (controller \<in> signal ` set (inflight s) \<and>
      (if controller \<in> aborted s then is_rejection outcome else settled s))"
| "deliverable Reset s = (settled s \<and> \<not> (messages s = [] \<and> pendingText s = []))"
| "deliverable (MicPress start) s = settled s"
| "deliverable (Result resultIndex results) s = (settled s \<and> recognitionRef s)"
| "deliverable (End now) s = (settled s \<and> recognitionRef s)"
| "deliverable (RecognitionError code) s = (settled s \<and> recognitionRef s)"

fun admissible :: "event list \<Rightarrow> state \<Rightarrow> bool" where
  "admissible [] s = True"
| "admissible (e # es) s = (deliverable e s \<and> admissible es (step e s))"

text \<open>
  The bookkeeping of controllers: every suspended call carries a controller that has
  been handed out, that is aborted unless it is the current one, and that no other
  suspended call carries.
\<close>

definition calls_tracked :: "state \<Rightarrow> bool" where
  "calls_tracked s \<longleftrightarrow>
     (\<forall>call \<in> set (inflight s).
        signal call < nextController s \<and>
        (signal call \<in> aborted s \<or> controllerRef s = Some (signal call))) \<and>
     distinct (map signal (inflight s))"

text \<open>
  The prompts that reached \<open>submitQuery\<close>: the user turns of the transcript and the
  requests of the suspended calls. None of them is empty after trimming.
\<close>

definition prompts_given :: "state \<Rightarrow> bool" where
  "prompts_given s \<longleftrightarrow>
     (\<forall>m \<in> set (messages s). role m = ''user'' \<longrightarrow> trim (content m) \<noteq> []) \<and>
     (\<forall>call \<in> set (inflight s).
        trim (the_string (property ''prompt'' (request_body call))) \<noteq> [])"

text \<open>
  One call at a time: at most one call is suspended, and it is either the call the
  component is processing or one whose controller is aborted.
\<close>

definition one_at_a_time :: "state \<Rightarrow> bool" where
  "one_at_a_time s \<longleftrightarrow>
     calls_tracked s \<and> length (inflight s) \<le> 1 \<and>
     (\<forall>call \<in> set (inflight s). isProcessing s \<or> signal call \<in> aborted s)"

section \<open>Properties of the completion relay\<close>

lemma history_turns: "map history_map (filter history_filter hs) = spec_history_turns hs"
proof (induction hs rule: spec_history_turns.induct)
  case 1
  show ?case by simp
next
  case (2 kvs rest)
  then show ?case
    by (auto simp: history_filter_def history_map_def split: option.splits json.splits)
qed (simp_all add: history_filter_def)

lemma POST_unconfigured:
  "apiKey = None \<or> apiKey = Some [] \<Longrightarrow>
   POST apiKey parsed create =
     ([], \<lparr>status = 500, body = Error ''The assistant is not configured. Set OPENAI_API_KEY.''\<rparr>)"
  by (simp add: POST_def)

lemma POST_configured:
  "key \<noteq> [] \<Longrightarrow>
   POST (Some key) (Some payload) create =
     (if payload_prompt payload = [] then
        ([], \<lparr>status = 400, body = Error ''Please provide a prompt.''\<rparr>)
      else
        ([completion_request (payload_prompt payload) (payload_history payload)],
         case create (completion_request (payload_prompt payload) (payload_history payload)) of
           Throws \<Rightarrow> \<lparr>status = 500, body = Error ''Failed to process that request.''\<rparr>
         | Completion choices \<Rightarrow>
             (if first_reply choices = None \<or> first_reply choices = Some []
              then \<lparr>status = 500, body = Error ''The assistant could not craft a reply.''\<rparr>
              else \<lparr>status = 200, body = Reply (the (first_reply choices))\<rparr>)))"
  by (auto simp: POST_def Let_def split: upstream_result.splits option.splits)

lemma POST_status_body:
  "(status (snd (POST apiKey parsed create)) = 200 \<and>
      (\<exists>reply. body (snd (POST apiKey parsed create)) = Reply reply)) \<or>
   (status (snd (POST apiKey parsed create)) \<in> {400, 500} \<and>
      (\<exists>e. body (snd (POST apiKey parsed create)) = Error e))"
  by (auto simp: POST_def Let_def split: upstream_result.splits option.splits)

lemma first_reply_unusable:
  "(first_reply choices = None \<or> first_reply choices = Some []) \<longleftrightarrow>
   \<not> (\<exists>text cs. choices = Some (Some text) # cs \<and> trim text \<noteq> [])"
  by (induction choices rule: first_reply.induct) auto

text \<open>
  Claim C4. With the credential set and a prompt that is not empty after trimming,
  the one request sent upstream carries the persona message first, then exactly the
  history entries whose role is \<open>user\<close> or \<open>assistant\<close> and whose content is a string,
  in their order, then the trimmed prompt as a user message. For the prompt
  \<open>What's the weather?\<close> and an empty history the list is the persona message and
  the user message.
\<close>

theorem POST_outgoing_messages:
  "(key \<noteq> [] \<and> property ''prompt'' payload = Some (JStr p) \<and> trim p \<noteq> [] \<and>
    property ''history'' payload = Some (JArr hs) \<longrightarrow>
      map req_messages (fst (POST (Some key) (Some payload) create)) =
        [\<lparr>role = ''system'', content = SYSTEM_PROMPT\<rparr> # spec_history_turns hs @
         [\<lparr>role = ''user'', content = trim p\<rparr>]]) \<and>
   (key \<noteq> [] \<longrightarrow>
      map req_messages
        (fst (POST (Some key)
           (Some (JObj [(''prompt'', JStr ''What's the weather?''), (''history'', JArr [])]))
           create)) =
        [[\<lparr>role = ''system'', content = SYSTEM_PROMPT\<rparr>,
          \<lparr>role = ''user'', content = ''What's the weather?''\<rparr>]])"
proof (intro conjI impI)
  assume "key \<noteq> [] \<and> property ''prompt'' payload = Some (JStr p) \<and> trim p \<noteq> [] \<and>
    property ''history'' payload = Some (JArr hs)"
  then show "map req_messages (fst (POST (Some key) (Some payload) create)) =
        [\<lparr>role = ''system'', content = SYSTEM_PROMPT\<rparr> # spec_history_turns hs @
         [\<lparr>role = ''user'', content = trim p\<rparr>]]"
    by (simp add: POST_configured payload_prompt_def payload_history_def
        completion_request_def outgoing_messages_def history_turns)
next
  have "trim ''What's the weather?'' = ''What's the weather?''"
    by (simp add: trim_def is_space_def)
  moreover assume "key \<noteq> []"
  ultimately show "map req_messages
        (fst (POST (Some key)
           (Some (JObj [(''prompt'', JStr ''What's the weather?''), (''history'', JArr [])]))
           create)) =
        [[\<lparr>role = ''system'', content = SYSTEM_PROMPT\<rparr>,
          \<lparr>role = ''user'', content = ''What's the weather?''\<rparr>]]"
    by (simp add: POST_configured payload_prompt_def payload_history_def
        completion_request_def outgoing_messages_def)
qed

theorem POST_outgoing_messages_witness:
  "map req_messages
     (fst (POST (Some ''sk-test'')
        (Some (JObj [(''prompt'', JStr '' What's next? ''),
            (''history'',
             JArr [JObj [(''role'', JStr ''user''), (''content'', JStr ''Hi'')],
                   JObj [(''role'', JStr ''tool''), (''content'', JStr ''x'')],
                   JNull,
                   JObj [(''role'', JStr ''assistant''), (''content'', JNum 5)],
                   JObj [(''role'', JStr ''assistant''), (''content'', JStr ''Hello!''),
                         (''timestamp'', JNum 3)]])]))
        (\<lambda>request. Completion [Some (Some ''It's sunny.'')]))) =
     [[\<lparr>role = ''system'', content = SYSTEM_PROMPT\<rparr>,
       \<lparr>role = ''user'', content = ''Hi''\<rparr>,
       \<lparr>role = ''assistant'', content = ''Hello!''\<rparr>,
       \<lparr>role = ''user'', content = ''What's next?''\<rparr>]] \<and>
   map req_messages
     (fst (POST (Some ''sk-test'')
        (Some (JObj [(''prompt'', JStr ''What's the weather?''), (''history'', JArr [])]))
        (\<lambda>request. Completion [Some (Some ''It's sunny.'')]))) =
     [[\<lparr>role = ''system'', content = SYSTEM_PROMPT\<rparr>,
       \<lparr>role = ''user'', content = ''What's the weather?''\<rparr>]]"
  using POST_outgoing_messages
    [of "''sk-test''"
        "JObj [(''prompt'', JStr '' What's next? ''),
            (''history'',
             JArr [JObj [(''role'', JStr ''user''), (''content'', JStr ''Hi'')],
                   JObj [(''role'', JStr ''tool''), (''content'', JStr ''x'')],
                   JNull,
                   JObj [(''role'', JStr ''assistant''), (''content'', JNum 5)],
                   JObj [(''role'', JStr ''assistant''), (''content'', JStr ''Hello!''),
                         (''timestamp'', JNum 3)]])]"
        "'' What's next? ''"
        "[JObj [(''role'', JStr ''user''), (''content'', JStr ''Hi'')],
          JObj [(''role'', JStr ''tool''), (''content'', JStr ''x'')],
          JNull,
          JObj [(''role'', JStr ''assistant''), (''content'', JNum 5)],
          JObj [(''role'', JStr ''assistant''), (''content'', JStr ''Hello!''),
                (''timestamp'', JNum 3)]]"
        "\<lambda>request. Completion [Some (Some ''It's sunny.'')]"]
  by (simp add: trim_def is_space_def)

text \<open>
  Claim C7. The relay's error responses: a missing (unset or empty) credential gives
  status 500 and no upstream request; with the credential set, a prompt that is
  empty after trimming gives status 400 and no upstream request; an upstream call that
  throws, or a first candidate whose text is empty after trimming, gives status 500.
  Every response whose status is not 200 has status 400 or 500 and a body of the
  shape \<open>{ error }\<close>.
\<close>

theorem POST_error_categories:
  "(apiKey = None \<or> apiKey = Some [] \<longrightarrow>
      POST apiKey parsed create =
        ([], \<lparr>status = 500,
               body = Error ''The assistant is not configured. Set OPENAI_API_KEY.''\<rparr>)) \<and>
   (key \<noteq> [] \<and> property ''prompt'' payload = Some (JStr p) \<and> trim p = [] \<longrightarrow>
      POST (Some key) (Some payload) create =
        ([], \<lparr>status = 400, body = Error ''Please provide a prompt.''\<rparr>)) \<and>
   (key \<noteq> [] \<and> property ''prompt'' payload = Some (JStr p) \<and> trim p \<noteq> [] \<and>
    create (completion_request (trim p) (payload_history payload)) = Throws \<longrightarrow>
      snd (POST (Some key) (Some payload) create) =
        \<lparr>status = 500, body = Error ''Failed to process that request.''\<rparr>) \<and>
   (key \<noteq> [] \<and> property ''prompt'' payload = Some (JStr p) \<and> trim p \<noteq> [] \<and>
    create (completion_request (trim p) (payload_history payload)) =
      Completion (Some (Some text) # cs) \<and> trim text = [] \<longrightarrow>
      snd (POST (Some key) (Some payload) create) =
        \<lparr>status = 500, body = Error ''The assistant could not craft a reply.''\<rparr>) \<and>
   (status (snd (POST apiKey parsed create)) \<noteq> 200 \<longrightarrow>
      status (snd (POST apiKey parsed create)) \<in> {400, 500} \<and>
      (\<exists>e. body (snd (POST apiKey parsed create)) = Error e))"
proof (intro conjI impI)
  assume "apiKey = None \<or> apiKey = Some []"
  then show "POST apiKey parsed create =
        ([], \<lparr>status = 500,
               body = Error ''The assistant is not configured. Set OPENAI_API_KEY.''\<rparr>)"
    by (rule POST_unconfigured)
next
  assume "key \<noteq> [] \<and> property ''prompt'' payload = Some (JStr p) \<and> trim p = []"
  then show "POST (Some key) (Some payload) create =
        ([], \<lparr>status = 400, body = Error ''Please provide a prompt.''\<rparr>)"
    by (simp add: POST_configured payload_prompt_def)
next
  assume "key \<noteq> [] \<and> property ''prompt'' payload = Some (JStr p) \<and> trim p \<noteq> [] \<and>
    create (completion_request (trim p) (payload_history payload)) = Throws"
  then show "snd (POST (Some key) (Some payload) create) =
        \<lparr>status = 500, body = Error ''Failed to process that request.''\<rparr>"
    by (simp add: POST_configured payload_prompt_def)
next
  assume "key \<noteq> [] \<and> property ''prompt'' payload = Some (JStr p) \<and> trim p \<noteq> [] \<and>
    create (completion_request (trim p) (payload_history payload)) =
      Completion (Some (Some text) # cs) \<and> trim text = []"
  then show "snd (POST (Some key) (Some payload) create) =
        \<lparr>status = 500, body = Error ''The assistant could not craft a reply.''\<rparr>"
    by (simp add: POST_configured payload_prompt_def)
next
  assume "status (snd (POST apiKey parsed create)) \<noteq> 200"
  then show "status (snd (POST apiKey parsed create)) \<in> {400, 500}"
    using POST_status_body [of apiKey parsed create] by auto
next
  assume "status (snd (POST apiKey parsed create)) \<noteq> 200"
  then show "\<exists>e. body (snd (POST apiKey parsed create)) = Error e"
    using POST_status_body [of apiKey parsed create] by auto
qed

theorem POST_error_categories_witness:
  "POST None (Some (JObj [(''prompt'', JStr ''hi'')])) (\<lambda>request. Throws) =
     ([], \<lparr>status = 500,
            body = Error ''The assistant is not configured. Set OPENAI_API_KEY.''\<rparr>) \<and>
   POST (Some ''sk-test'') (Some (JObj [(''prompt'', JStr ''  '')])) (\<lambda>request. Throws) =
     ([], \<lparr>status = 400, body = Error ''Please provide a prompt.''\<rparr>) \<and>
   snd (POST (Some ''sk-test'') (Some (JObj [(''prompt'', JStr ''hi'')])) (\<lambda>request. Throws)) =
     \<lparr>status = 500, body = Error ''Failed to process that request.''\<rparr> \<and>
   snd (POST (Some ''sk-test'') (Some (JObj [(''prompt'', JStr ''hi'')]))
          (\<lambda>request. Completion [Some (Some '' '')])) =
     \<lparr>status = 500, body = Error ''The assistant could not craft a reply.''\<rparr> \<and>
   status (snd (POST None (Some (JObj [(''prompt'', JStr ''hi'')])) (\<lambda>request. Throws))) \<in>
     {400, 500}"
  using
    POST_error_categories
      [of None "Some (JObj [(''prompt'', JStr ''hi'')])" "\<lambda>request. Throws" "''sk-test''"
          "JObj [(''prompt'', JStr ''  '')]" "''  ''"]
    POST_error_categories
      [of None "Some (JObj [(''prompt'', JStr ''hi'')])" "\<lambda>request. Throws" "''sk-test''"
          "JObj [(''prompt'', JStr ''hi'')]" "''hi''"]
    POST_error_categories
      [of None "Some (JObj [(''prompt'', JStr ''hi'')])"
          "\<lambda>request. Completion [Some (Some '' '')]" "''sk-test''"
          "JObj [(''prompt'', JStr ''hi'')]" "''hi''" "'' ''" "[]"]
  by (simp add: trim_def is_space_def)

text \<open>
  Claim C8. With the credential set and a prompt that is not empty after trimming: when
  the upstream call returns a first candidate whose text is not empty after trimming,
  the relay sends one request and answers 200 with exactly that trimmed text as
  \<open>{ reply }\<close>; and the answer is a 500 error if and only if the upstream call throws or
  the completion has no first candidate with a text that is non-empty after trimming.
\<close>

theorem POST_reply_or_upstream_error:
  assumes "key \<noteq> []" and "property ''prompt'' payload = Some (JStr p)" and "trim p \<noteq> []"
  shows "(create (completion_request (trim p) (payload_history payload)) =
            Completion (Some (Some text) # cs) \<and> trim text \<noteq> [] \<longrightarrow>
          POST (Some key) (Some payload) create =
            ([completion_request (trim p) (payload_history payload)],
             \<lparr>status = 200, body = Reply (trim text)\<rparr>)) \<and>
         ((\<exists>e. snd (POST (Some key) (Some payload) create) = \<lparr>status = 500, body = Error e\<rparr>) \<longleftrightarrow>
          (create (completion_request (trim p) (payload_history payload)) = Throws \<or>
           (\<exists>choices. create (completion_request (trim p) (payload_history payload)) =
                        Completion choices \<and>
                      \<not> (\<exists>t rest. choices = Some (Some t) # rest \<and> trim t \<noteq> []))))"
proof -
  have pp: "payload_prompt payload = trim p"
    using assms by (simp add: payload_prompt_def)
  show ?thesis
  proof (cases "create (completion_request (trim p) (payload_history payload))")
    case Throws
    then show ?thesis using assms pp by (simp add: POST_configured)
  next
    case (Completion choices)
    then show ?thesis
      using assms pp first_reply_unusable [of choices]
      by (auto simp: POST_configured)
  qed
qed

theorem POST_reply_or_upstream_error_witness:
  "POST (Some ''sk-test'')
     (Some (JObj [(''prompt'', JStr ''What's the weather?''), (''history'', JArr [])]))
     (\<lambda>request. Completion [Some (Some '' It's sunny. '')]) =
     ([completion_request ''What's the weather?'' []],
      \<lparr>status = 200, body = Reply ''It's sunny.''\<rparr>) \<and>
   (\<exists>e. snd (POST (Some ''sk-test'')
     (Some (JObj [(''prompt'', JStr ''What's the weather?''), (''history'', JArr [])]))
     (\<lambda>request. Throws)) = \<lparr>status = 500, body = Error e\<rparr>)"
  using
    POST_reply_or_upstream_error
      [of "''sk-test''"
          "JObj [(''prompt'', JStr ''What's the weather?''), (''history'', JArr [])]"
          "''What's the weather?''"
          "\<lambda>request. Completion [Some (Some '' It's sunny. '')]" "'' It's sunny. ''" "[]"]
    POST_reply_or_upstream_error
      [of "''sk-test''"
          "JObj [(''prompt'', JStr ''What's the weather?''), (''history'', JArr [])]"
          "''What's the weather?''" "\<lambda>request. Throws"]
  by (simp add: trim_def is_space_def payload_history_def)

text \<open>
  Claim C10. A payload whose \<open>history\<close> is absent or not an array is handled exactly
  as the payload with the same prompt and \<open>history = []\<close>, so that with the credential
  set and a non-empty trimmed prompt the outgoing list is the persona message and the
  user message. A payload whose \<open>prompt\<close> is absent or not a string is handled exactly
  as the payload with the same history and \<open>prompt = ""\<close>, and with the credential set
  the answer is the 400 empty-prompt response with no upstream request.
\<close>

theorem POST_defaults_for_malformed_fields:
  "((\<forall>hs. property ''history'' payload \<noteq> Some (JArr hs)) \<and>
    property ''prompt'' payload' = property ''prompt'' payload \<and>
    property ''history'' payload' = Some (JArr []) \<longrightarrow>
      POST apiKey (Some payload) create = POST apiKey (Some payload') create) \<and>
   ((\<forall>hs. property ''history'' payload \<noteq> Some (JArr hs)) \<and> key \<noteq> [] \<and>
    property ''prompt'' payload = Some (JStr p) \<and> trim p \<noteq> [] \<longrightarrow>
      map req_messages (fst (POST (Some key) (Some payload) create)) =
        [[\<lparr>role = ''system'', content = SYSTEM_PROMPT\<rparr>,
          \<lparr>role = ''user'', content = trim p\<rparr>]]) \<and>
   ((\<forall>p. property ''prompt'' payload \<noteq> Some (JStr p)) \<and>
    property ''prompt'' payload' = Some (JStr []) \<and>
    property ''history'' payload' = property ''history'' payload \<longrightarrow>
      POST apiKey (Some payload) create = POST apiKey (Some payload') create) \<and>
   ((\<forall>p. property ''prompt'' payload \<noteq> Some (JStr p)) \<and> key \<noteq> [] \<longrightarrow>
      POST (Some key) (Some payload) create =
        ([], \<lparr>status = 400, body = Error ''Please provide a prompt.''\<rparr>))"
proof -
  have no_array: "payload_history v = []"
    if "\<forall>hs. property ''history'' v \<noteq> Some (JArr hs)" for v
    using that by (cases "property ''history'' v" rule: isArray.cases)
      (simp_all add: payload_history_def)
  have no_string: "payload_prompt v = []"
    if "\<forall>p. property ''prompt'' v \<noteq> Some (JStr p)" for v
    using that by (cases "property ''prompt'' v" rule: typeof_string.cases)
      (simp_all add: payload_prompt_def)
  have empty_string: "payload_prompt v = []" if "property ''prompt'' v = Some (JStr [])" for v
    using that by (simp add: payload_prompt_def trim_def)
  have same_prompt: "payload_prompt v = payload_prompt w"
    if "property ''prompt'' v = property ''prompt'' w" for v w
    using that by (simp add: payload_prompt_def)
  have same_history: "payload_history v = payload_history w"
    if "property ''history'' v = property ''history'' w" for v w
    using that by (simp add: payload_history_def)
  have empty_array: "payload_history v = []" if "property ''history'' v = Some (JArr [])" for v
    using that by (simp add: payload_history_def)
  show ?thesis
  proof (intro conjI impI)
    assume h: "(\<forall>hs. property ''history'' payload \<noteq> Some (JArr hs)) \<and>
      property ''prompt'' payload' = property ''prompt'' payload \<and>
      property ''history'' payload' = Some (JArr [])"
    then have "payload_history payload = payload_history payload'"
      and "payload_prompt payload = payload_prompt payload'"
      using no_array [of payload] empty_array [of payload'] same_prompt [of payload payload']
      by simp_all
    then show "POST apiKey (Some payload) create = POST apiKey (Some payload') create"
      by (simp add: POST_def)
  next
    assume h: "(\<forall>hs. property ''history'' payload \<noteq> Some (JArr hs)) \<and> key \<noteq> [] \<and>
      property ''prompt'' payload = Some (JStr p) \<and> trim p \<noteq> []"
    then have "payload_history payload = []" and "payload_prompt payload = trim p"
      using no_array [of payload] by (simp_all add: payload_prompt_def)
    with h show "map req_messages (fst (POST (Some key) (Some payload) create)) =
        [[\<lparr>role = ''system'', content = SYSTEM_PROMPT\<rparr>,
          \<lparr>role = ''user'', content = trim p\<rparr>]]"
      by (simp add: POST_configured completion_request_def outgoing_messages_def)
  next
    assume h: "(\<forall>p. property ''prompt'' payload \<noteq> Some (JStr p)) \<and>
      property ''prompt'' payload' = Some (JStr []) \<and>
      property ''history'' payload' = property ''history'' payload"
    then have "payload_prompt payload = payload_prompt payload'"
      and "payload_history payload = payload_history payload'"
      using no_string [of payload] empty_string [of payload']
        same_history [of payload payload'] by simp_all
    then show "POST apiKey (Some payload) create = POST apiKey (Some payload') create"
      by (simp add: POST_def)
  next
    assume h: "(\<forall>p. property ''prompt'' payload \<noteq> Some (JStr p)) \<and> key \<noteq> []"
    then have "payload_prompt payload = []" using no_string [of payload] by simp
    with h show "POST (Some key) (Some payload) create =
        ([], \<lparr>status = 400, body = Error ''Please provide a prompt.''\<rparr>)"
      by (simp add: POST_configured)
  qed
qed

theorem POST_defaults_for_malformed_fields_witness:
  "POST (Some ''sk-test'')
     (Some (JObj [(''prompt'', JStr ''hi''), (''history'', JStr ''none'')]))
     (\<lambda>request. Completion [Some (Some ''Hello!'')]) =
   POST (Some ''sk-test'')
     (Some (JObj [(''prompt'', JStr ''hi''), (''history'', JArr [])]))
     (\<lambda>request. Completion [Some (Some ''Hello!'')]) \<and>
   map req_messages
     (fst (POST (Some ''sk-test'')
        (Some (JObj [(''prompt'', JStr ''hi''), (''history'', JStr ''none'')]))
        (\<lambda>request. Completion [Some (Some ''Hello!'')]))) =
     [[\<lparr>role = ''system'', content = SYSTEM_PROMPT\<rparr>, \<lparr>role = ''user'', content = ''hi''\<rparr>]] \<and>
   POST (Some ''sk-test'') (Some (JObj [(''history'', JArr [])]))
     (\<lambda>request. Completion [Some (Some ''Hello!'')]) =
     ([], \<lparr>status = 400, body = Error ''Please provide a prompt.''\<rparr>)"
proof -
  note no_history =
    POST_defaults_for_malformed_fields
      [of "JObj [(''prompt'', JStr ''hi''), (''history'', JStr ''none'')]"
          "JObj [(''prompt'', JStr ''hi''), (''history'', JArr [])]"
          "Some ''sk-test''" "\<lambda>request. Completion [Some (Some ''Hello!'')]"
          "''sk-test''" "''hi''"]
  note no_prompt =
    POST_defaults_for_malformed_fields
      [of "JObj [(''history'', JArr [])]"
          "JObj [(''prompt'', JStr []), (''history'', JArr [])]"
          "Some ''sk-test''" "\<lambda>request. Completion [Some (Some ''Hello!'')]"
          "''sk-test''" "''hi''"]
  have h: "\<forall>hs. property ''history''
             (JObj [(''prompt'', JStr ''hi''), (''history'', JStr ''none'')]) \<noteq> Some (JArr hs)"
    by simp
  have p: "\<forall>p. property ''prompt'' (JObj [(''history'', JArr [])]) \<noteq> Some (JStr p)"
    by simp
  have t: "trim ''hi'' \<noteq> []"
    by (simp add: trim_def is_space_def)
  have same: "property ''prompt'' (JObj [(''prompt'', JStr ''hi''), (''history'', JArr [])]) =
      property ''prompt'' (JObj [(''prompt'', JStr ''hi''), (''history'', JStr ''none'')])"
    and arr: "property ''history'' (JObj [(''prompt'', JStr ''hi''), (''history'', JArr [])]) =
      Some (JArr [])"
    by simp_all
  from no_history h same arr have c1:
    "POST (Some ''sk-test'')
       (Some (JObj [(''prompt'', JStr ''hi''), (''history'', JStr ''none'')]))
       (\<lambda>request. Completion [Some (Some ''Hello!'')]) =
     POST (Some ''sk-test'')
       (Some (JObj [(''prompt'', JStr ''hi''), (''history'', JArr [])]))
       (\<lambda>request. Completion [Some (Some ''Hello!'')])"
    by blast
  have k: "''sk-test'' \<noteq> []"
    by simp
  have pr: "property ''prompt''
              (JObj [(''prompt'', JStr ''hi''), (''history'', JStr ''none'')]) =
            Some (JStr ''hi'')"
    by simp
  from no_history h t k pr have c2:
    "map req_messages
       (fst (POST (Some ''sk-test'')
          (Some (JObj [(''prompt'', JStr ''hi''), (''history'', JStr ''none'')]))
          (\<lambda>request. Completion [Some (Some ''Hello!'')]))) =
     [[\<lparr>role = ''system'', content = SYSTEM_PROMPT\<rparr>, \<lparr>role = ''user'', content = trim ''hi''\<rparr>]]"
    by blast
  from no_prompt p k have c3:
    "POST (Some ''sk-test'') (Some (JObj [(''history'', JArr [])]))
       (\<lambda>request. Completion [Some (Some ''Hello!'')]) =
     ([], \<lparr>status = 400, body = Error ''Please provide a prompt.''\<rparr>)"
    by blast
  have "trim ''hi'' = ''hi''"
    by (simp add: trim_def is_space_def)
  with c1 c2 c3 show ?thesis
    by (intro conjI) simp_all
qed

section \<open>Properties of the session controller\<close>

lemmas run_simps =
  mounted_def handleSubmit_def submitQuery_def abort_current_def submitQuery_resume_def
  speakText_def fetch_body_def handleReset_def recognition_onresult_def handleMicPress_def
  recognition_onend_def installed_onend_def recognition_onerror_def session_state_def
  settled_def trim_def is_space_def Let_def

lemma submitQuery_messages:
  "messages (submitQuery closure_messages now text s) =
     messages s @ [\<lparr>role = ''user'', content = text, timestamp = now\<rparr>]"
  by (simp add: submitQuery_def abort_current_def Let_def split: option.splits)

lemma submitQuery_inflight:
  "inflight (submitQuery closure_messages now text s) =
     inflight s @
     [\<lparr>signal = nextController s, request_body = fetch_body text closure_messages\<rparr>]"
  by (simp add: submitQuery_def abort_current_def Let_def split: option.splits)

lemma speakText_messages: "messages (speakText text s) = messages s"
  by (simp add: speakText_def split: option.splits)

lemma speakText_inflight: "inflight (speakText text s) = inflight s"
  by (simp add: speakText_def split: option.splits)

lemma submitQuery_resume_messages:
  "controller \<in> signal ` set (inflight s) \<Longrightarrow>
   messages (submitQuery_resume controller outcome now s) =
     messages s @
     [\<lparr>role = ''assistant'', content = assistant_content outcome, timestamp = now\<rparr>]"
  by (cases outcome) (simp_all add: submitQuery_resume_def Let_def speakText_messages)

lemma submitQuery_resume_inflight:
  "inflight (submitQuery_resume controller outcome now s) =
     filter (\<lambda>call. signal call \<noteq> controller) (inflight s)"
proof (cases "controller \<in> signal ` set (inflight s)")
  case True
  then show ?thesis
    by (cases outcome) (simp_all add: submitQuery_resume_def Let_def speakText_inflight)
next
  case False
  then have "filter (\<lambda>call. signal call \<noteq> controller) (inflight s) = inflight s"
    by (auto simp: filter_id_conv)
  with False show ?thesis
    by (simp add: submitQuery_resume_def)
qed

lemma submitQuery_resume_not_suspended:
  "controller \<notin> signal ` set (inflight s) \<Longrightarrow>
   submitQuery_resume controller outcome now s = s"
  by (simp add: submitQuery_resume_def)

text \<open>
  The installed \<open>onend\<close> handler in any state, and, for comparison, the handler body
  run with the bindings of the current render.
\<close>

lemma installed_onend_eq: "installed_onend now s = s\<lparr>isListening := False\<rparr>"
  by (simp add: installed_onend_def recognition_onend_def mounted_def trim_def Let_def)

lemma onend_with_current_bindings:
  "messages
     (recognition_onend ''turn on the lights'' [] 5
        (recognition_onresult 0 [''turn on the lights'']
           (handleMicPress Started (mounted True (Some []))))) =
     [\<lparr>role = ''user'', content = ''turn on the lights'', timestamp = 5\<rparr>] \<and>
   pendingText
     (recognition_onend ''turn on the lights'' [] 5
        (recognition_onresult 0 [''turn on the lights'']
           (handleMicPress Started (mounted True (Some []))))) = []"
  by (simp add: run_simps)

text \<open>
  The client and the relay together: for a transcript of user and assistant turns
  and a prompt that is not empty after trimming, the body \<open>submitQuery\<close> sends makes
  the relay forward the persona message, the transcript and the prompt.
\<close>

lemma spec_history_turns_transcript:
  "\<forall>m \<in> set ms. role m = ''user'' \<or> role m = ''assistant'' \<Longrightarrow>
   spec_history_turns
     (map (\<lambda>message. JObj [(''role'', JStr (role message)),
                            (''content'', JStr (content message))]) ms) =
   map (\<lambda>message. \<lparr>role = role message, content = content message\<rparr>) ms"
  by (induction ms) auto

lemma relay_receives_transcript:
  assumes "\<forall>m \<in> set ms. role m = ''user'' \<or> role m = ''assistant''"
    and "key \<noteq> []" and "trim text \<noteq> []"
  shows "map req_messages (fst (POST (Some key) (Some (fetch_body text ms)) create)) =
           [\<lparr>role = ''system'', content = SYSTEM_PROMPT\<rparr> #
            map (\<lambda>message. \<lparr>role = role message, content = content message\<rparr>) ms @
            [\<lparr>role = ''user'', content = trim text\<rparr>]]"
  using assms
  by (simp add: POST_configured payload_prompt_def payload_history_def fetch_body_def
      completion_request_def outgoing_messages_def history_turns
      spec_history_turns_transcript)

text \<open>
  The bookkeeping holds in every state a run reaches; so at most one suspended call
  has a controller that is not aborted, and after a reset none has.
\<close>

lemma calls_tracked_mounted: "calls_tracked (mounted available synth)"
  by (simp add: calls_tracked_def mounted_def)

lemma calls_tracked_submitQuery:
  assumes "calls_tracked s"
  shows "calls_tracked (submitQuery closure_messages now text s)"
proof -
  have fresh: "nextController s \<notin> signal ` set (inflight s)"
    using assms by (auto simp: calls_tracked_def)
  have ab: "aborted (submitQuery closure_messages now text s) =
      (case controllerRef s of None \<Rightarrow> aborted s | Some c \<Rightarrow> insert c (aborted s))"
    and cr: "controllerRef (submitQuery closure_messages now text s) = Some (nextController s)"
    and nc: "nextController (submitQuery closure_messages now text s) = Suc (nextController s)"
    by (simp_all add: submitQuery_def abort_current_def Let_def split: option.splits)
  show ?thesis
    unfolding calls_tracked_def submitQuery_inflight ab cr nc
    using assms fresh
    by (auto simp: calls_tracked_def less_Suc_eq split: option.splits)
qed

lemma calls_tracked_resume:
  assumes "calls_tracked s"
  shows "calls_tracked (submitQuery_resume controller outcome now s)"
proof (cases "controller \<in> signal ` set (inflight s)")
  case False
  with assms show ?thesis by (simp add: submitQuery_resume_not_suspended)
next
  case True
  then have rest: "aborted (submitQuery_resume controller outcome now s) = aborted s"
    "controllerRef (submitQuery_resume controller outcome now s) = controllerRef s"
    "nextController (submitQuery_resume controller outcome now s) = nextController s"
    by (cases outcome; simp add: submitQuery_resume_def speakText_def Let_def
        split: option.splits)+
  show ?thesis
    unfolding calls_tracked_def submitQuery_resume_inflight rest
    using assms by (auto simp: calls_tracked_def distinct_map_filter)
qed

lemma handleReset_fields:
  "inflight (handleReset s) = inflight s"
  "nextController (handleReset s) = nextController s"
  "controllerRef (handleReset s) = controllerRef s"
  "aborted (handleReset s) =
     (case controllerRef s of None \<Rightarrow> aborted s | Some c \<Rightarrow> insert c (aborted s))"
  by (simp_all add: handleReset_def abort_current_def Let_def split: option.splits)

lemma calls_tracked_handleReset:
  "calls_tracked s \<Longrightarrow> calls_tracked (handleReset s)"
  unfolding calls_tracked_def handleReset_fields
  by (auto split: option.splits)

lemma handleReset_aborts_all:
  "calls_tracked s \<Longrightarrow>
   \<forall>call \<in> set (inflight (handleReset s)). signal call \<in> aborted (handleReset s)"
  unfolding calls_tracked_def handleReset_fields
  by (auto split: option.splits)

lemma calls_tracked_step: "calls_tracked s \<Longrightarrow> calls_tracked (step e s)"
proof (cases e)
  case (Submit field now)
  assume "calls_tracked s"
  with Submit show ?thesis
    by (cases field) (simp_all add: handleSubmit_def Let_def calls_tracked_submitQuery)
next
  case (Settle controller outcome now)
  assume "calls_tracked s"
  with Settle show ?thesis by (simp add: calls_tracked_resume)
next
  case Reset
  assume "calls_tracked s"
  with Reset show ?thesis by (simp add: calls_tracked_handleReset)
next
  case (MicPress start)
  assume "calls_tracked s"
  with MicPress show ?thesis
    by (cases start) (simp_all add: handleMicPress_def calls_tracked_def Let_def)
next
  case (Result resultIndex results)
  assume "calls_tracked s"
  with Result show ?thesis by (simp add: recognition_onresult_def calls_tracked_def)
next
  case (End now)
  assume "calls_tracked s"
  with End show ?thesis by (simp add: installed_onend_eq calls_tracked_def)
next
  case (RecognitionError code)
  assume "calls_tracked s"
  with RecognitionError show ?thesis by (simp add: recognition_onerror_def calls_tracked_def)
qed

lemma calls_tracked_run: "calls_tracked s \<Longrightarrow> calls_tracked (run es s)"
  by (induction es arbitrary: s) (simp_all add: calls_tracked_step)

lemma distinct_signal_count:
  "distinct (map f xs) \<Longrightarrow> length (filter (\<lambda>x. f x = c) xs) \<le> 1"
proof (induction xs)
  case Nil
  show ?case by simp
next
  case (Cons a xs)
  show ?case
  proof (cases "f a = c")
    case True
    with Cons.prems have "c \<notin> f ` set xs"
      by auto
    then have "\<forall>x \<in> set xs. f x \<noteq> c"
      by blast
    then have "filter (\<lambda>x. f x = c) xs = []"
      by (simp add: filter_empty_conv)
    with True show ?thesis by simp
  next
    case False
    with Cons show ?thesis by simp
  qed
qed

lemma one_live_call:
  assumes "calls_tracked s"
  shows "length (filter (\<lambda>call. signal call \<notin> aborted s) (inflight s)) \<le> 1"
proof (cases "controllerRef s")
  case None
  with assms have "filter (\<lambda>call. signal call \<notin> aborted s) (inflight s) = []"
    by (auto simp: calls_tracked_def filter_empty_conv)
  then show ?thesis by simp
next
  case (Some c)
  with assms have "filter (\<lambda>call. signal call \<notin> aborted s) (inflight s) =
      filter (\<lambda>call. signal call \<notin> aborted s) (filter (\<lambda>call. signal call = c) (inflight s))"
    by (auto simp: calls_tracked_def intro!: filter_cong)
  also have "length \<dots> \<le> length (filter (\<lambda>call. signal call = c) (inflight s))"
    by (rule length_filter_le)
  also have "\<dots> \<le> 1"
    using assms by (intro distinct_signal_count) (simp add: calls_tracked_def)
  finally show ?thesis .
qed

lemma calls_tracked_reachable: "calls_tracked (run es (mounted available synth))"
  by (simp add: calls_tracked_run calls_tracked_mounted)

lemma one_live_call_reachable:
  "length (filter (\<lambda>call. signal call \<notin> aborted (run es (mounted available synth)))
     (inflight (run es (mounted available synth)))) \<le> 1"
  by (rule one_live_call) (rule calls_tracked_reachable)

text \<open>
  The cancelled call after a reset: a call is in flight, reset aborts it and empties
  the transcript, and the call's \<open>catch\<close> block then appends its message to the empty
  transcript.
\<close>

lemma cancelled_call_after_reset:
  "messages
     (run [Submit (Some ''hello'') 1, Reset,
           Settle 0 (RejectedError ''signal is aborted without reason'') 2]
        (mounted True (Some []))) =
     [\<lparr>role = ''assistant'',
       content = ''I ran into a problem: signal is aborted without reason'',
       timestamp = 2\<rparr>]"
  by (simp add: run_simps)

text \<open>
  Trimming a trimmed string changes nothing, so a prompt that passed the guard of
  \<open>handleSubmit\<close> is not blank; and no run gives \<open>submitQuery\<close> a blank prompt.
\<close>

lemma trim_trim: "trim (trim s) = trim s"
proof -
  have front: "dropWhile P (rev (dropWhile P (rev xs))) = rev (dropWhile P (rev xs))"
    if "xs = [] \<or> \<not> P (hd xs)" for P :: "char \<Rightarrow> bool" and xs
  proof (cases xs)
    case Nil
    then show ?thesis by simp
  next
    case (Cons a ys)
    with that have "\<not> P a" by simp
    then have "rev (dropWhile P (rev ys @ [a])) = a # rev (dropWhile P (rev ys))
        \<or> rev (dropWhile P (rev ys @ [a])) = [a]"
      by (simp add: dropWhile_append)
    with \<open>\<not> P a\<close> Cons show ?thesis by auto
  qed
  have "dropWhile is_space s = [] \<or> \<not> is_space (hd (dropWhile is_space s))"
    using hd_dropWhile [of is_space s] by blast
  then have "dropWhile is_space (trim s) = trim s"
    unfolding trim_def by (rule front)
  moreover have "dropWhile is_space (rev (trim s)) = rev (trim s)"
    by (simp add: trim_def)
  ultimately show ?thesis
    by (simp add: trim_def [of "trim s"])
qed

lemma prompts_given_submitQuery:
  assumes "prompts_given s" and "trim text \<noteq> []"
  shows "prompts_given (submitQuery closure_messages now text s)"
  using assms
  by (auto simp: prompts_given_def submitQuery_messages submitQuery_inflight fetch_body_def)

lemma prompts_given_resume:
  assumes "prompts_given s"
  shows "prompts_given (submitQuery_resume controller outcome now s)"
proof (cases "controller \<in> signal ` set (inflight s)")
  case False
  with assms show ?thesis by (simp add: submitQuery_resume_not_suspended)
next
  case True
  with assms show ?thesis
    by (auto simp: prompts_given_def submitQuery_resume_messages submitQuery_resume_inflight)
qed

lemma prompts_given_step: "prompts_given s \<Longrightarrow> prompts_given (step e s)"
proof (cases e)
  case (Submit field now)
  assume "prompts_given s"
  with Submit show ?thesis
    by (cases field)
      (simp_all add: handleSubmit_def Let_def prompts_given_submitQuery trim_trim)
next
  case (Settle controller outcome now)
  assume "prompts_given s"
  with Settle show ?thesis by (simp add: prompts_given_resume)
next
  case Reset
  assume "prompts_given s"
  moreover have "messages (handleReset s) = []"
    by (simp add: handleReset_def abort_current_def Let_def split: option.splits)
  ultimately show ?thesis
    using Reset by (simp add: prompts_given_def handleReset_fields)
next
  case (MicPress start)
  assume "prompts_given s"
  with MicPress show ?thesis
    by (cases start) (simp_all add: handleMicPress_def prompts_given_def Let_def)
next
  case (Result resultIndex results)
  assume "prompts_given s"
  with Result show ?thesis by (simp add: recognition_onresult_def prompts_given_def)
next
  case (End now)
  assume "prompts_given s"
  with End show ?thesis by (simp add: installed_onend_eq prompts_given_def)
next
  case (RecognitionError code)
  assume "prompts_given s"
  with RecognitionError show ?thesis by (simp add: recognition_onerror_def prompts_given_def)
qed

lemma prompts_given_run: "prompts_given s \<Longrightarrow> prompts_given (run es s)"
  by (induction es arbitrary: s) (simp_all add: prompts_given_step)

lemma prompts_given_reachable: "prompts_given (run es (mounted available synth))"
  by (rule prompts_given_run) (simp add: prompts_given_def mounted_def)

text \<open>
  On the runs the page delivers, a submission that carries a prompt finds no call
  suspended: a second call never starts while the first is in flight, and a call is
  cancelled only by the reset button.
\<close>

lemma one_at_a_time_idle:
  assumes "one_at_a_time s" and "settled s" and "\<not> isProcessing s"
  shows "inflight s = []"
proof -
  from assms have "\<forall>call \<in> set (inflight s). signal call \<in> aborted s"
    by (simp add: one_at_a_time_def)
  then have "filter (\<lambda>call. signal call \<in> aborted s) (inflight s) = inflight s"
    by (simp add: filter_id_conv)
  with assms(2) show ?thesis
    by (simp add: settled_def)
qed

lemma one_at_a_time_submitQuery:
  assumes "one_at_a_time s" and "inflight s = []"
  shows "one_at_a_time (submitQuery closure_messages now text s)"
proof -
  have "isProcessing (submitQuery closure_messages now text s)"
    by (simp add: submitQuery_def abort_current_def Let_def split: option.splits)
  with assms show ?thesis
    by (simp add: one_at_a_time_def calls_tracked_submitQuery submitQuery_inflight)
qed

lemma one_at_a_time_resume:
  assumes "one_at_a_time s" and "controller \<in> signal ` set (inflight s)"
  shows "one_at_a_time (submitQuery_resume controller outcome now s)"
proof -
  from assms obtain call where "inflight s = [call]" and "signal call = controller"
    by (cases "inflight s") (auto simp: one_at_a_time_def)
  then have "inflight (submitQuery_resume controller outcome now s) = []"
    by (simp add: submitQuery_resume_inflight)
  with assms show ?thesis
    by (simp add: one_at_a_time_def calls_tracked_resume)
qed

lemma one_at_a_time_handleReset:
  assumes "one_at_a_time s"
  shows "one_at_a_time (handleReset s)"
  using assms handleReset_aborts_all [of s]
  by (simp add: one_at_a_time_def calls_tracked_handleReset handleReset_fields(1))

lemma one_at_a_time_step:
  assumes "one_at_a_time s" and "deliverable e s"
  shows "one_at_a_time (step e s)"
proof (cases e)
  case (Submit field now)
  show ?thesis
  proof (cases field)
    case None
    with Submit assms show ?thesis by (simp add: handleSubmit_def)
  next
    case (Some raw)
    with Submit assms have "inflight s = []"
      by (intro one_at_a_time_idle) simp_all
    with Submit Some assms show ?thesis
      by (simp add: handleSubmit_def Let_def one_at_a_time_submitQuery)
  qed
next
  case (Settle controller outcome now)
  with assms show ?thesis by (simp add: one_at_a_time_resume)
next
  case Reset
  with assms show ?thesis by (simp add: one_at_a_time_handleReset)
next
  case (MicPress start)
  with assms show ?thesis
    by (cases start)
      (simp_all add: handleMicPress_def one_at_a_time_def calls_tracked_def Let_def)
next
  case (Result resultIndex results)
  with assms show ?thesis
    by (simp add: recognition_onresult_def one_at_a_time_def calls_tracked_def)
next
  case (End now)
  with assms show ?thesis
    by (simp add: installed_onend_eq one_at_a_time_def calls_tracked_def)
next
  case (RecognitionError code)
  with assms show ?thesis
    by (simp add: recognition_onerror_def one_at_a_time_def calls_tracked_def)
qed

lemma one_at_a_time_run:
  "one_at_a_time s \<Longrightarrow> admissible es s \<Longrightarrow> one_at_a_time (run es s)"
  by (induction es arbitrary: s) (simp_all add: one_at_a_time_step)

lemma admissible_append:
  "admissible (es @ [e]) s \<longleftrightarrow> admissible es s \<and> deliverable e (run es s)"
  by (induction es arbitrary: s) auto

lemma submission_starts_alone:
  assumes "admissible (es @ [Submit (Some raw) now]) (mounted available synth)"
  shows "inflight (run es (mounted available synth)) = []"
proof -
  from assms have adm: "admissible es (mounted available synth)"
    and del: "deliverable (Submit (Some raw) now) (run es (mounted available synth))"
    by (simp_all add: admissible_append)
  have "one_at_a_time (mounted available synth)"
    by (simp add: one_at_a_time_def calls_tracked_mounted) (simp add: mounted_def)
  then have "one_at_a_time (run es (mounted available synth))"
    using adm by (rule one_at_a_time_run)
  with del show ?thesis
    by (intro one_at_a_time_idle) simp_all
qed

text \<open>
  Claim C3. For every prompt text (so for every non-empty trimmed one), \<open>submitQuery\<close>
  appends exactly one user turn with that text at once and leaves the call suspended
  on its request. When the request of a suspended call settles, whatever the
  outcome, the call appends exactly one assistant turn: the reply on success, the
  templated message \<open>I ran into a problem: ...\<close> (or the fixed message for a thrown
  value that is not an \<open>Error\<close>) on failure; no outcome escapes as an exception, and
  the call has no second continuation, so it appends nothing more.
\<close>

theorem submitQuery_user_then_assistant:
  "messages (submitQuery closure_messages now text s) =
     messages s @ [\<lparr>role = ''user'', content = text, timestamp = now\<rparr>] \<and>
   nextController s \<in> signal ` set (inflight (submitQuery closure_messages now text s)) \<and>
   (controller \<in> signal ` set (inflight s') \<longrightarrow>
      messages (submitQuery_resume controller outcome now' s') =
        messages s' @
        [\<lparr>role = ''assistant'',
          content =
            (case outcome of
               Ok reply \<Rightarrow> reply
             | NotOk errorText \<Rightarrow>
                 ''I ran into a problem: '' @
                 (if errorText = [] then ''Something went wrong'' else errorText)
             | RejectedError message \<Rightarrow> ''I ran into a problem: '' @ message
             | RejectedOther \<Rightarrow> ''I ran into an unexpected problem processing that.''),
          timestamp = now'\<rparr>] \<and>
      \<not> isProcessing (submitQuery_resume controller outcome now' s') \<and>
      submitQuery_resume controller outcome2 now2
        (submitQuery_resume controller outcome now' s') =
        submitQuery_resume controller outcome now' s')"
proof (intro conjI impI)
  show "messages (submitQuery closure_messages now text s) =
     messages s @ [\<lparr>role = ''user'', content = text, timestamp = now\<rparr>]"
    by (rule submitQuery_messages)
  show "nextController s \<in> signal ` set (inflight (submitQuery closure_messages now text s))"
    by (simp add: submitQuery_inflight)
next
  assume suspended: "controller \<in> signal ` set (inflight s')"
  then show "messages (submitQuery_resume controller outcome now' s') =
        messages s' @
        [\<lparr>role = ''assistant'',
          content =
            (case outcome of
               Ok reply \<Rightarrow> reply
             | NotOk errorText \<Rightarrow>
                 ''I ran into a problem: '' @
                 (if errorText = [] then ''Something went wrong'' else errorText)
             | RejectedError message \<Rightarrow> ''I ran into a problem: '' @ message
             | RejectedOther \<Rightarrow> ''I ran into an unexpected problem processing that.''),
          timestamp = now'\<rparr>]"
    by (cases outcome) (simp_all add: submitQuery_resume_messages)
  from suspended show "\<not> isProcessing (submitQuery_resume controller outcome now' s')"
    by (simp add: submitQuery_resume_def Let_def)
  have "controller \<notin> signal ` set (inflight (submitQuery_resume controller outcome now' s'))"
    by (auto simp: submitQuery_resume_inflight)
  then show "submitQuery_resume controller outcome2 now2
        (submitQuery_resume controller outcome now' s') =
        submitQuery_resume controller outcome now' s'"
    by (rule submitQuery_resume_not_suspended)
qed

theorem submitQuery_user_then_assistant_witness:
  "messages (submitQuery [] 1 ''hello'' (mounted True (Some []))) =
     [\<lparr>role = ''user'', content = ''hello'', timestamp = 1\<rparr>] \<and>
   0 \<in> signal ` set (inflight (submitQuery [] 1 ''hello'' (mounted True (Some [])))) \<and>
   messages
     (submitQuery_resume 0 (NotOk []) 2 (submitQuery [] 1 ''hello'' (mounted True (Some [])))) =
     [\<lparr>role = ''user'', content = ''hello'', timestamp = 1\<rparr>,
      \<lparr>role = ''assistant'', content = ''I ran into a problem: Something went wrong'',
       timestamp = 2\<rparr>] \<and>
   submitQuery_resume 0 (Ok ''again'') 3
     (submitQuery_resume 0 (NotOk []) 2 (submitQuery [] 1 ''hello'' (mounted True (Some [])))) =
     submitQuery_resume 0 (NotOk []) 2 (submitQuery [] 1 ''hello'' (mounted True (Some [])))"
proof -
  note t = submitQuery_user_then_assistant
    [of "[]" 1 "''hello''" "mounted True (Some [])" 0
        "submitQuery [] 1 ''hello'' (mounted True (Some []))" "NotOk []" 2 "Ok ''again''" 3]
  have n: "nextController (mounted True (Some [])) = 0"
    by (simp add: mounted_def)
  have m: "messages (mounted True (Some [])) = []"
    by (simp add: mounted_def)
  from t n have suspended:
    "0 \<in> signal ` set (inflight (submitQuery [] 1 ''hello'' (mounted True (Some []))))"
    by simp
  from t m have first: "messages (submitQuery [] 1 ''hello'' (mounted True (Some []))) =
     [\<lparr>role = ''user'', content = ''hello'', timestamp = 1\<rparr>]"
    by simp
  from t suspended have rest:
    "messages
       (submitQuery_resume 0 (NotOk []) 2
          (submitQuery [] 1 ''hello'' (mounted True (Some [])))) =
     messages (submitQuery [] 1 ''hello'' (mounted True (Some []))) @
       [\<lparr>role = ''assistant'', content = ''I ran into a problem: Something went wrong'',
         timestamp = 2\<rparr>]"
    "submitQuery_resume 0 (Ok ''again'') 3
       (submitQuery_resume 0 (NotOk []) 2
          (submitQuery [] 1 ''hello'' (mounted True (Some [])))) =
     submitQuery_resume 0 (NotOk []) 2 (submitQuery [] 1 ''hello'' (mounted True (Some [])))"
    by simp_all
  from first suspended rest show ?thesis
    by simp
qed


text \<open>
  Claim C2, as the code has it. \<open>handleReset\<close> empties the transcript, clears
  \<open>pendingText\<close> and \<open>isProcessing\<close>, calls \<open>abort\<close> on the current controller if
  there is one and empties the speech queue if there is a synthesiser. It leaves
  \<open>isListening\<close> as it was, so the session is \<open>Idle\<close> afterwards exactly when it was
  not listening before. After a reset in a state that a run has reached, every call
  still suspended has an aborted controller.
\<close>

theorem handleReset_postcondition:
  "messages (handleReset s) = [] \<and>
   pendingText (handleReset s) = [] \<and>
   \<not> isProcessing (handleReset s) \<and>
   isListening (handleReset s) = isListening s \<and>
   (session_state (handleReset s) = Idle) = (\<not> isListening s) \<and>
   (controllerRef s = Some controller \<longrightarrow> controller \<in> aborted (handleReset s)) \<and>
   (speechSynthesis s = Some queue \<longrightarrow> speechSynthesis (handleReset s) = Some []) \<and>
   (\<forall>call \<in> set (inflight (handleReset (run es (mounted available synth)))).
      signal call \<in> aborted (handleReset (run es (mounted available synth))))"
proof -
  have "messages (handleReset s) = [] \<and>
   pendingText (handleReset s) = [] \<and>
   \<not> isProcessing (handleReset s) \<and>
   isListening (handleReset s) = isListening s \<and>
   (session_state (handleReset s) = Idle) = (\<not> isListening s) \<and>
   (controllerRef s = Some controller \<longrightarrow> controller \<in> aborted (handleReset s)) \<and>
   (speechSynthesis s = Some queue \<longrightarrow> speechSynthesis (handleReset s) = Some [])"
    by (simp add: handleReset_def abort_current_def session_state_def Let_def
        split: option.splits)
  moreover have "\<forall>call \<in> set (inflight (handleReset (run es (mounted available synth)))).
      signal call \<in> aborted (handleReset (run es (mounted available synth)))"
    by (rule handleReset_aborts_all) (rule calls_tracked_reachable)
  ultimately show ?thesis
    by blast
qed

theorem handleReset_postcondition_witness:
  "controllerRef (run [Submit (Some ''hello'') 1] (mounted True (Some [''Earlier reply'']))) =
     Some 0 \<and>
   speechSynthesis (run [Submit (Some ''hello'') 1] (mounted True (Some [''Earlier reply'']))) =
     Some [''Earlier reply''] \<and>
   map signal (inflight (run [Submit (Some ''hello'') 1] (mounted True (Some [''Earlier reply''])))) =
     [0] \<and>
   messages (handleReset (run [Submit (Some ''hello'') 1] (mounted True (Some [''Earlier reply''])))) =
     [] \<and>
   0 \<in> aborted
     (handleReset (run [Submit (Some ''hello'') 1] (mounted True (Some [''Earlier reply''])))) \<and>
   speechSynthesis
     (handleReset (run [Submit (Some ''hello'') 1] (mounted True (Some [''Earlier reply''])))) =
     Some [] \<and>
   session_state
     (handleReset (run [Submit (Some ''hello'') 1] (mounted True (Some [''Earlier reply''])))) =
     Idle"
proof -
  have c: "controllerRef
      (run [Submit (Some ''hello'') 1] (mounted True (Some [''Earlier reply'']))) = Some 0"
    and q: "speechSynthesis
      (run [Submit (Some ''hello'') 1] (mounted True (Some [''Earlier reply'']))) =
      Some [''Earlier reply'']"
    and l: "\<not> isListening (run [Submit (Some ''hello'') 1] (mounted True (Some [''Earlier reply''])))"
    and i: "map signal
      (inflight (run [Submit (Some ''hello'') 1] (mounted True (Some [''Earlier reply''])))) = [0]"
    by (simp_all add: run_simps)
  from c q l i handleReset_postcondition
    [of "run [Submit (Some ''hello'') 1] (mounted True (Some [''Earlier reply'']))" 0
        "[''Earlier reply'']" "[Submit (Some ''hello'') 1]" True "Some [''Earlier reply'']"]
  show ?thesis
    by simp
qed

text \<open>
  Claim C2 as stated fails for a listening session: after the microphone was
  started and a partial result \<open>hello\<close> arrived (which enables the reset button),
  \<open>handleReset\<close> leaves the session listening.
\<close>

theorem handleReset_while_listening_counterexample:
  "session_state
     (handleReset
        (recognition_onresult 0 [''hello'']
           (handleMicPress Started (mounted True (Some []))))) \<noteq> Idle"
  by (simp add: run_simps)

text \<open>
  Claim C5, evaluated on the code. The installed \<open>onend\<close> handler only clears
  \<open>isListening\<close>, in every state: the \<open>pendingText\<close> it tests is the one of the first
  render. With the microphone started and the recognised text \<open>turn on the lights\<close>
  pending, the capture-ended signal submits nothing (no turn, no relay call) and the
  pending text is not cleared.
\<close>

theorem installed_onend_never_submits:
  "installed_onend now s = s\<lparr>isListening := False\<rparr> \<and>
   isListening
     (recognition_onresult 0 [''turn on the lights'']
        (handleMicPress Started (mounted True (Some [])))) \<and>
   pendingText
     (recognition_onresult 0 [''turn on the lights'']
        (handleMicPress Started (mounted True (Some [])))) = ''turn on the lights'' \<and>
   messages
     (installed_onend 5
        (recognition_onresult 0 [''turn on the lights'']
           (handleMicPress Started (mounted True (Some []))))) = [] \<and>
   inflight
     (installed_onend 5
        (recognition_onresult 0 [''turn on the lights'']
           (handleMicPress Started (mounted True (Some []))))) = [] \<and>
   pendingText
     (installed_onend 5
        (recognition_onresult 0 [''turn on the lights'']
           (handleMicPress Started (mounted True (Some []))))) = ''turn on the lights''"
  by (intro conjI) (simp_all add: installed_onend_eq, simp_all add: run_simps)

text \<open>
  Claim C6. A prompt that is empty or white space only never gets into \<open>submitQuery\<close>:
  \<open>handleSubmit\<close> with such a field changes nothing (no user turn, no assistant turn,
  no relay call), and the \<open>onend\<close> handler whose pending text is empty after trimming
  only clears \<open>isListening\<close>. So in every state a run reaches, no user turn of the
  transcript and no relay call in flight has a prompt that is empty after trimming.
\<close>

theorem handleSubmit_blank_prompt_noop:
  "(trim raw = [] \<longrightarrow> handleSubmit (Some raw) now s = s) \<and>
   (trim closure_pendingText = [] \<longrightarrow>
      recognition_onend closure_pendingText closure_messages now s =
        s\<lparr>isListening := False\<rparr>) \<and>
   (\<forall>m \<in> set (messages (run es (mounted available synth))).
      role m = ''user'' \<longrightarrow> trim (content m) \<noteq> []) \<and>
   (\<forall>call \<in> set (inflight (run es (mounted available synth))).
      trim (the_string (property ''prompt'' (request_body call))) \<noteq> [])"
proof (intro conjI)
  show "trim raw = [] \<longrightarrow> handleSubmit (Some raw) now s = s"
    by (simp add: handleSubmit_def)
  show "trim closure_pendingText = [] \<longrightarrow>
      recognition_onend closure_pendingText closure_messages now s = s\<lparr>isListening := False\<rparr>"
    by (simp add: recognition_onend_def)
  have "prompts_given (run es (mounted available synth))"
    by (rule prompts_given_reachable)
  then show "\<forall>m \<in> set (messages (run es (mounted available synth))).
      role m = ''user'' \<longrightarrow> trim (content m) \<noteq> []"
    and "\<forall>call \<in> set (inflight (run es (mounted available synth))).
      trim (the_string (property ''prompt'' (request_body call))) \<noteq> []"
    by (simp_all add: prompts_given_def)
qed

theorem handleSubmit_blank_prompt_noop_witness:
  "trim ''   '' = [] \<and>
   handleSubmit (Some ''   '') 4 (mounted True (Some [])) = mounted True (Some []) \<and>
   recognition_onend ''  '' [] 4 (handleMicPress Started (mounted True (Some []))) =
     (handleMicPress Started (mounted True (Some [])))\<lparr>isListening := False\<rparr> \<and>
   messages (run [Submit (Some ''  '') 1, Submit (Some '' hi '') 2] (mounted True (Some []))) =
     [\<lparr>role = ''user'', content = ''hi'', timestamp = 2\<rparr>] \<and>
   trim ''hi'' \<noteq> [] \<and>
   map signal
     (inflight (run [Submit (Some ''  '') 1, Submit (Some '' hi '') 2] (mounted True (Some [])))) =
     [0]"
proof -
  have b: "trim ''   '' = []" "trim ''  '' = []"
    by (simp_all add: trim_def is_space_def)
  from b handleSubmit_blank_prompt_noop [of "''   ''" 4 "mounted True (Some [])"]
  have c1: "handleSubmit (Some ''   '') 4 (mounted True (Some [])) = mounted True (Some [])"
    by blast
  from b
    handleSubmit_blank_prompt_noop
      [of _ 4 "handleMicPress Started (mounted True (Some []))" "''  ''" "[]"]
  have c2: "recognition_onend ''  '' [] 4 (handleMicPress Started (mounted True (Some []))) =
     (handleMicPress Started (mounted True (Some [])))\<lparr>isListening := False\<rparr>"
    by blast
  have m: "messages
      (run [Submit (Some ''  '') 1, Submit (Some '' hi '') 2] (mounted True (Some []))) =
      [\<lparr>role = ''user'', content = ''hi'', timestamp = 2\<rparr>]"
    and i: "map signal
      (inflight (run [Submit (Some ''  '') 1, Submit (Some '' hi '') 2]
         (mounted True (Some [])))) = [0]"
    by (simp_all add: run_simps)
  from handleSubmit_blank_prompt_noop
    [of _ _ _ _ _ "[Submit (Some ''  '') 1, Submit (Some '' hi '') 2]" True "Some []"]
  have "\<forall>m \<in> set (messages
      (run [Submit (Some ''  '') 1, Submit (Some '' hi '') 2] (mounted True (Some [])))).
      role m = ''user'' \<longrightarrow> trim (content m) \<noteq> []"
    by blast
  with m have t: "trim ''hi'' \<noteq> []"
    by simp
  from b c1 c2 m t i show ?thesis
    by (intro conjI)
qed

text \<open>
  Claim C9. \<open>recognition.onerror\<close> leaves the transcript (and the pending text and the
  calls in flight) unchanged, ends listening, and sets the diagnostic field: to the
  fixed permission-denied string for the code \<open>not-allowed\<close>, and to
  \<open>Recognition error: \<close> followed by the code for every other code.
\<close>

theorem recognition_onerror_diagnostic:
  "messages (recognition_onerror code s) = messages s \<and>
   pendingText (recognition_onerror code s) = pendingText s \<and>
   inflight (recognition_onerror code s) = inflight s \<and>
   \<not> isListening (recognition_onerror code s) \<and>
   session_state (recognition_onerror code s) \<noteq> Listening \<and>
   recognitionError (recognition_onerror ''not-allowed'' s) =
     Some ''Microphone access denied. Please enable it in your browser.'' \<and>
   (code \<noteq> ''not-allowed'' \<longrightarrow>
      recognitionError (recognition_onerror code s) = Some (''Recognition error: '' @ code))"
  by (simp add: recognition_onerror_def session_state_def)

theorem recognition_onerror_diagnostic_witness:
  "recognitionError
     (recognition_onerror ''network'' (handleMicPress Started (mounted True (Some [])))) =
     Some ''Recognition error: network'' \<and>
   \<not> isListening
     (recognition_onerror ''network'' (handleMicPress Started (mounted True (Some [])))) \<and>
   isListening (handleMicPress Started (mounted True (Some [])))"
proof -
  have "''network'' \<noteq> ''not-allowed''"
    by simp
  with recognition_onerror_diagnostic
    [of "''network''" "handleMicPress Started (mounted True (Some []))"]
  have "recognitionError
     (recognition_onerror ''network'' (handleMicPress Started (mounted True (Some [])))) =
     Some ''Recognition error: network''"
    and "\<not> isListening
     (recognition_onerror ''network'' (handleMicPress Started (mounted True (Some []))))"
    by simp_all
  moreover have "isListening (handleMicPress Started (mounted True (Some [])))"
    by (simp add: handleMicPress_def mounted_def)
  ultimately show ?thesis
    by simp
qed

end
